theory Spec2Isabelle
  imports Main "HOL-Library.Sublist" "HOL-Library.Word"
begin

section \<open>Python values, exceptions and text encoding\<close>

text \<open>
  The package \<^verbatim>\<open>django_secure_media\<close> is Python. Every \<^verbatim>\<open>raise\<close> of the source, and
  every exception of a builtin the source calls, is a value \<open>Inl e\<close> of a sum type; a
  normal return is \<open>Inr v\<close>.
\<close>

datatype exn =
    Http404 string
  | ValueError string
  | TypeError string
  | AttributeError string
  | UnicodeEncodeError string
  | PermissionDenied string
  | Raised string

type_synonym byte = "8 word"

text \<open>
  The values that reach the package as a path, as a prefix or as the result of a
  predicate. A \<^verbatim>\<open>str\<close> is its sequence of code points, a \<^verbatim>\<open>bytes\<close> its sequence
  of octets. An object with \<^verbatim>\<open>__fspath__\<close> is represented by the \<^verbatim>\<open>str\<close> or
  \<^verbatim>\<open>bytes\<close> that \<^verbatim>\<open>os.fspath\<close> returns for it.
\<close>

datatype pyval =
    PyStr "nat list"
  | PyBytes "byte list"
  | PyBool bool
  | PyNone
  | PyInt int

text \<open>Truth value testing, as \<^verbatim>\<open>not x\<close> and \<^verbatim>\<open>x or y\<close> apply it.\<close>

fun truthy :: "pyval \<Rightarrow> bool" where
  "truthy (PyStr s) = (s \<noteq> [])"
| "truthy (PyBytes b) = (b \<noteq> [])"
| "truthy (PyBool b) = b"
| "truthy PyNone = False"
| "truthy (PyInt n) = (n \<noteq> 0)"

text \<open>Literals: the code points, respectively the octets, of an ASCII literal.\<close>

definition str_lit :: "string \<Rightarrow> nat list" where
  "str_lit cs = map of_char cs"

definition bytes_lit :: "string \<Rightarrow> byte list" where
  "bytes_lit cs = map of_char cs"

text \<open>
  \<^verbatim>\<open>str.encode()\<close> with its defaults: UTF-8, \<^verbatim>\<open>errors='strict'\<close>. A surrogate code
  point (U+D800 to U+DFFF) cannot be encoded and raises \<^verbatim>\<open>UnicodeEncodeError\<close>. Code
  points end at U+10FFFF; a larger number is no character of a \<^verbatim>\<open>str\<close> and is given
  the same error.
\<close>

definition utf8_char :: "nat \<Rightarrow> exn + byte list" where
  "utf8_char c =
     (if c < 0x80 then Inr [of_nat c]
      else if c < 0x800 then Inr [of_nat (0xC0 + c div 64), of_nat (0x80 + c mod 64)]
      else if c < 0x10000 then
        (if 0xD800 \<le> c \<and> c \<le> 0xDFFF
         then Inl (UnicodeEncodeError ''surrogates not allowed'')
         else Inr [of_nat (0xE0 + c div 4096), of_nat (0x80 + c div 64 mod 64),
                   of_nat (0x80 + c mod 64)])
      else if c < 0x110000 then
        Inr [of_nat (0xF0 + c div 262144), of_nat (0x80 + c div 4096 mod 64),
             of_nat (0x80 + c div 64 mod 64), of_nat (0x80 + c mod 64)]
      else Inl (UnicodeEncodeError ''surrogates not allowed''))"

fun encode :: "nat list \<Rightarrow> exn + byte list" where
  "encode [] = Inr []"
| "encode (c # cs) =
     (case utf8_char c of
        Inl e \<Rightarrow> Inl e
      | Inr bs \<Rightarrow> (case encode cs of Inl e \<Rightarrow> Inl e | Inr rest \<Rightarrow> Inr (bs @ rest)))"

text \<open>\<^verbatim>\<open>p.encode()\<close> on any value: only a \<^verbatim>\<open>str\<close> has the method.\<close>

fun py_encode :: "pyval \<Rightarrow> exn + byte list" where
  "py_encode (PyStr s) = encode s"
| "py_encode _ = Inl (AttributeError ''object has no attribute encode'')"

text \<open>
  \<^verbatim>\<open>tuple(p.encode() for p in prefixes)\<close>: every element is encoded, in order, before
  anything is compared; the first failure is raised.
\<close>

fun encode_prefixes :: "pyval list \<Rightarrow> exn + byte list list" where
  "encode_prefixes [] = Inr []"
| "encode_prefixes (p # ps) =
     (case py_encode p of
        Inl e \<Rightarrow> Inl e
      | Inr b \<Rightarrow> (case encode_prefixes ps of Inl e \<Rightarrow> Inl e | Inr bs \<Rightarrow> Inr (b # bs)))"

text \<open>
  \<^verbatim>\<open>str.startswith(t)\<close> for a tuple \<open>t\<close>: the elements are visited in order; an element
  that is no \<^verbatim>\<open>str\<close> raises \<^verbatim>\<open>TypeError\<close> when it is reached, a match returns
  \<^verbatim>\<open>True\<close> at once.
\<close>

fun str_startswith :: "nat list \<Rightarrow> pyval list \<Rightarrow> exn + bool" where
  "str_startswith s [] = Inr False"
| "str_startswith s (PyStr q # qs) = (if prefix q s then Inr True else str_startswith s qs)"
| "str_startswith s (_ # qs) = Inl (TypeError ''tuple for startswith must only contain str'')"

text \<open>\<^verbatim>\<open>bytes.startswith(t)\<close> for a tuple \<open>t\<close> of \<^verbatim>\<open>bytes\<close>.\<close>

definition bytes_startswith :: "byte list \<Rightarrow> byte list list \<Rightarrow> bool" where
  "bytes_startswith b qs = list_ex (\<lambda>q. prefix q b) qs"

text \<open>\<^verbatim>\<open>os.fspath\<close>: a \<^verbatim>\<open>str\<close> or \<^verbatim>\<open>bytes\<close> is returned as it is, anything else raises.\<close>

fun fspath :: "pyval \<Rightarrow> exn + pyval" where
  "fspath (PyStr s) = Inr (PyStr s)"
| "fspath (PyBytes b) = Inr (PyBytes b)"
| "fspath _ = Inl (TypeError ''expected str, bytes or os.PathLike object'')"

section \<open>policies.py\<close>

text \<open>
  A computation of caller-supplied code (a predicate, a view) runs in a state \<open>'s\<close> of the
  surrounding application and returns its outcome with the new state.
\<close>

type_synonym ('s, 'a) py = "'s \<Rightarrow> (exn + 'a) \<times> 's"

text \<open>
  \<^verbatim>\<open>class MediaAccessPolicy\<close>. \<^verbatim>\<open>restricted_prefixes\<close> is a tuple, as the constructor
  declares it (\<^verbatim>\<open>tuple[str, ...]\<close>); the constructor checks nothing, so its elements
  are arbitrary values. \<^verbatim>\<open>access_check\<close> is the injected callable.
\<close>

record ('req, 's) MediaAccessPolicy =
  restricted_prefixes :: "pyval list"
  access_check :: "'req \<Rightarrow> pyval \<Rightarrow> ('s, pyval) py"

text \<open>
  \<^verbatim>\<open>MediaAccessPolicy.matches\<close>. \<^verbatim>\<open>os.fspath\<close> returns a \<^verbatim>\<open>str\<close> or a
  \<^verbatim>\<open>bytes\<close>, so the branch for \<^verbatim>\<open>bytes\<close> and the \<^verbatim>\<open>else\<close> branch for \<^verbatim>\<open>str\<close>
  are the two that run; the last case of the model is never reached.
\<close>

definition matches :: "('req, 's) MediaAccessPolicy \<Rightarrow> pyval \<Rightarrow> exn + bool" where
  "matches self path =
     (case fspath path of
        Inl e \<Rightarrow> Inl e
      | Inr tmp_path \<Rightarrow>
          (case tmp_path of
             PyBytes b \<Rightarrow>
               (case encode_prefixes (restricted_prefixes self) of
                  Inl e \<Rightarrow> Inl e
                | Inr prefixes' \<Rightarrow> Inr (bytes_startswith b prefixes'))
           | PyStr s \<Rightarrow> str_startswith s (restricted_prefixes self)
           | _ \<Rightarrow> Inl (AttributeError ''object has no attribute startswith'')))"

text \<open>\<^verbatim>\<open>MediaAccessPolicy.is_allowed\<close>\<close>

definition policy_is_allowed ::
  "('req, 's) MediaAccessPolicy \<Rightarrow> 'req \<Rightarrow> pyval \<Rightarrow> ('s, pyval) py" where
  "policy_is_allowed self request path = access_check self request path"

text \<open>
  \<^verbatim>\<open>class MediaAccessPolicyRegistry\<close>. \<^verbatim>\<open>default_allow\<close> is stored and returned as
  given.
\<close>

record ('req, 's) MediaAccessPolicyRegistry =
  policies :: "('req, 's) MediaAccessPolicy list"
  default_allow :: pyval

text \<open>\<^verbatim>\<open>MediaAccessPolicyRegistry.register\<close>: \<^verbatim>\<open>self.policies.append(policy)\<close>.\<close>

definition registry_register ::
  "('req, 's) MediaAccessPolicyRegistry \<Rightarrow> ('req, 's) MediaAccessPolicy
     \<Rightarrow> ('req, 's) MediaAccessPolicyRegistry" where
  "registry_register self policy = self\<lparr>policies := policies self @ [policy]\<rparr>"

text \<open>The loop of \<^verbatim>\<open>get_policy_for_path\<close> over \<^verbatim>\<open>self.policies\<close>.\<close>

fun scan_policies ::
  "('req, 's) MediaAccessPolicy list \<Rightarrow> pyval \<Rightarrow> exn + ('req, 's) MediaAccessPolicy option" where
  "scan_policies [] path = Inr None"
| "scan_policies (policy # rest) path =
     (case matches policy path of
        Inl e \<Rightarrow> Inl e
      | Inr m \<Rightarrow> (if m then Inr (Some policy) else scan_policies rest path))"

definition get_policy_for_path ::
  "('req, 's) MediaAccessPolicyRegistry \<Rightarrow> pyval \<Rightarrow> exn + ('req, 's) MediaAccessPolicy option" where
  "get_policy_for_path self path = scan_policies (policies self) path"

text \<open>
  \<^verbatim>\<open>MediaAccessPolicyRegistry.is_allowed\<close>. The test \<^verbatim>\<open>if policy:\<close> separates an
  instance from \<^verbatim>\<open>None\<close>: the class defines neither \<^verbatim>\<open>__bool__\<close> nor
  \<^verbatim>\<open>__len__\<close>, so an instance is true.
\<close>

definition registry_is_allowed ::
  "('req, 's) MediaAccessPolicyRegistry \<Rightarrow> 'req \<Rightarrow> pyval \<Rightarrow> ('s, pyval) py" where
  "registry_is_allowed self request path s =
     (case get_policy_for_path self path of
        Inl e \<Rightarrow> (Inl e, s)
      | Inr (Some policy) \<Rightarrow> policy_is_allowed policy request path s
      | Inr None \<Rightarrow> (Inr (default_allow self), s))"

section \<open>decorators.py\<close>

text \<open>
  \<^verbatim>\<open>check_path\<close>, the function \<^verbatim>\<open>secure_media_path\<close> puts around a view.
  \<^verbatim>\<open>policy_registry\<close> is \<^verbatim>\<open>None\<close> or a registry; a registry instance is true, so
  \<^verbatim>\<open>policy_registry or default_registry\<close> takes the default exactly for \<^verbatim>\<open>None\<close>.
  \<open>args\<close> stands for \<^verbatim>\<open>*args, **kwargs\<close>.
\<close>

definition effective_registry ::
  "('req, 's) MediaAccessPolicyRegistry option \<Rightarrow> ('req, 's) MediaAccessPolicyRegistry
     \<Rightarrow> ('req, 's) MediaAccessPolicyRegistry" where
  "effective_registry policy_registry default_registry =
     (case policy_registry of Some r \<Rightarrow> r | None \<Rightarrow> default_registry)"

definition check_path ::
  "('req \<Rightarrow> pyval \<Rightarrow> 'args \<Rightarrow> ('s, 'resp) py)
     \<Rightarrow> ('req, 's) MediaAccessPolicyRegistry option \<Rightarrow> ('req, 's) MediaAccessPolicyRegistry
     \<Rightarrow> 'req \<Rightarrow> pyval \<Rightarrow> 'args \<Rightarrow> ('s, 'resp) py" where
  "check_path view_func policy_registry default_registry request path args s =
     (let registry = effective_registry policy_registry default_registry
      in case registry_is_allowed registry request path s of
           (Inl e, s') \<Rightarrow> (Inl e, s')
         | (Inr allowed, s') \<Rightarrow>
             (if \<not> truthy allowed then (Inl (Http404 ''Restricted media file''), s')
              else view_func request path args s'))"

text \<open>\<^verbatim>\<open>secure_media_path(function, policy_registry)\<close> with a callable \<^verbatim>\<open>function\<close>.\<close>

definition secure_media_path ::
  "('req \<Rightarrow> pyval \<Rightarrow> 'args \<Rightarrow> ('s, 'resp) py)
     \<Rightarrow> ('req, 's) MediaAccessPolicyRegistry option \<Rightarrow> ('req, 's) MediaAccessPolicyRegistry
     \<Rightarrow> 'req \<Rightarrow> pyval \<Rightarrow> 'args \<Rightarrow> ('s, 'resp) py" where
  "secure_media_path function policy_registry default_registry =
     check_path function policy_registry default_registry"

section \<open>__init__.py\<close>

text \<open>
  The arguments of the free function \<^verbatim>\<open>register\<close> are unchecked objects: a policy, a
  reference to a registry object, or any other value. Registries are mutable objects;
  the heap maps a reference to the registry it holds.
\<close>

datatype ('req, 's) pyobj =
    ObjPolicy "('req, 's) MediaAccessPolicy"
  | ObjRegistry nat
  | ObjPlain pyval

type_synonym ('req, 's) heap = "nat \<Rightarrow> ('req, 's) MediaAccessPolicyRegistry"

fun obj_truthy :: "('req, 's) pyobj \<Rightarrow> bool" where
  "obj_truthy (ObjPolicy p) = True"
| "obj_truthy (ObjRegistry r) = True"
| "obj_truthy (ObjPlain v) = truthy v"

text \<open>\<^verbatim>\<open>x or y\<close>\<close>

definition py_or :: "('req, 's) pyobj \<Rightarrow> ('req, 's) pyobj \<Rightarrow> ('req, 's) pyobj" where
  "py_or x y = (if obj_truthy x then x else y)"

text \<open>\<^verbatim>\<open>isinstance(x, MediaAccessPolicyRegistry)\<close>, \<^verbatim>\<open>isinstance(x, MediaAccessPolicy)\<close>\<close>

fun is_registry :: "('req, 's) pyobj \<Rightarrow> bool" where
  "is_registry (ObjRegistry r) = True"
| "is_registry _ = False"

fun is_policy :: "('req, 's) pyobj \<Rightarrow> bool" where
  "is_policy (ObjPolicy p) = True"
| "is_policy _ = False"

text \<open>
  \<^verbatim>\<open>register(media_policy, policy_registry=None)\<close>; \<open>default_registry\<close> is the module's
  global \<^verbatim>\<open>django_secure_media.policies.registry\<close>.
\<close>

definition register ::
  "('req, 's) pyobj \<Rightarrow> ('req, 's) pyobj \<Rightarrow> ('req, 's) pyobj
     \<Rightarrow> ('req, 's) heap \<Rightarrow> (exn + unit) \<times> ('req, 's) heap" where
  "register media_policy policy_registry default_registry h =
     (let registry = py_or policy_registry default_registry
      in case registry of
           ObjRegistry r \<Rightarrow>
             (case media_policy of
                ObjPolicy p \<Rightarrow> (Inr (), h(r := registry_register (h r) p))
              | _ \<Rightarrow> (Inl (ValueError ''Wrapped class must subclass MediaAccessPolicy.''), h))
         | _ \<Rightarrow> (Inl (ValueError ''registry must subclass MediaAccessPolicyRegistry''), h))"

section \<open>tests.py and the example application\<close>

text \<open>
  What the predicates of the repository read from a request is
  \<^verbatim>\<open>request.user.is_authenticated\<close>; what its test view returns is
  \<^verbatim>\<open>HttpResponse("OK")\<close>.
\<close>

record request =
  user_is_authenticated :: bool

datatype response = HttpResponse string

text \<open>\<^verbatim>\<open>lambda r, p: r.user.is_authenticated\<close>\<close>

definition is_authenticated_check :: "request \<Rightarrow> pyval \<Rightarrow> ('s, pyval) py" where
  "is_authenticated_check r p s = (Inr (PyBool (user_is_authenticated r)), s)"

text \<open>\<^verbatim>\<open>SecureMediaTests.setUp\<close>: \<^verbatim>\<open>self.policy\<close> and \<^verbatim>\<open>self.registry\<close>.\<close>

definition test_policy :: "(request, 's) MediaAccessPolicy" where
  "test_policy =
     \<lparr>restricted_prefixes = [PyStr (str_lit ''images/'')], access_check = is_authenticated_check\<rparr>"

definition test_registry :: "(request, 's) MediaAccessPolicyRegistry" where
  "test_registry = \<lparr>policies = [test_policy], default_allow = PyBool False\<rparr>"

text \<open>\<^verbatim>\<open>auth_policy\<close> of \<^verbatim>\<open>secure_media_example/media_policies.py\<close>.\<close>

definition auth_policy :: "(request, 's) MediaAccessPolicy" where
  "auth_policy =
     \<lparr>restricted_prefixes = [PyStr (str_lit ''images/''), PyStr (str_lit ''profiles/'')],
      access_check = is_authenticated_check\<rparr>"

section \<open>Vocabulary of the properties\<close>

text \<open>\<^verbatim>\<open>isinstance(p, str)\<close>\<close>

fun is_str :: "pyval \<Rightarrow> bool" where
  "is_str (PyStr s) = True"
| "is_str _ = False"

text \<open>
  A prefix is encodable when \<^verbatim>\<open>p.encode()\<close> returns: it is a \<^verbatim>\<open>str\<close> without a
  surrogate code point.
\<close>

definition encodable :: "pyval \<Rightarrow> bool" where
  "encodable p = (\<not> isl (py_encode p))"

section \<open>Text encoding and prefixes\<close>

lemma encode_append:
  "encode (xs @ ys) =
     (case encode xs of
        Inl e \<Rightarrow> Inl e
      | Inr a \<Rightarrow> (case encode ys of Inl e \<Rightarrow> Inl e | Inr b \<Rightarrow> Inr (a @ b)))"
  by (induction xs) (auto split: sum.splits)

lemma encode_prefix:
  assumes "encode s = Inr b" and "prefix q s"
  shows "\<exists>bq. encode q = Inr bq \<and> prefix bq b"
proof -
  from assms(2) obtain r where "s = q @ r"
    by (auto simp: prefix_def)
  with assms(1) show ?thesis
    by (auto simp: encode_append split: sum.splits)
qed

lemma encodable_is_str: "encodable p \<Longrightarrow> is_str p"
  by (cases p) (simp_all add: encodable_def)

lemma encode_prefixes_total:
  "\<forall>p\<in>set ps. encodable p \<Longrightarrow> \<exists>bs. encode_prefixes ps = Inr bs"
  by (induction ps) (auto split: sum.splits simp: isl_def encodable_def)

lemma encode_prefixes_mem:
  "encode_prefixes ps = Inr bs \<Longrightarrow> PyStr q \<in> set ps
     \<Longrightarrow> \<exists>bq. encode q = Inr bq \<and> bq \<in> set bs"
  by (induction ps arbitrary: bs) (auto split: sum.splits)

lemma str_startswith_True:
  "\<forall>p\<in>set ps. is_str p \<Longrightarrow> PyStr q \<in> set ps \<Longrightarrow> prefix q s
     \<Longrightarrow> str_startswith s ps = Inr True"
  by (induction s ps rule: str_startswith.induct) auto

lemma str_startswith_total:
  "\<forall>p\<in>set ps. is_str p \<Longrightarrow> \<exists>m. str_startswith s ps = Inr m"
  by (induction s ps rule: str_startswith.induct) auto

lemma bytes_startswith_mem:
  "q \<in> set qs \<Longrightarrow> prefix q b \<Longrightarrow> bytes_startswith b qs"
  by (auto simp: bytes_startswith_def list_ex_iff)

text \<open>
  On a text path a policy of text prefixes matches when one of them is a prefix of the
  path; on a byte path a policy of encodable prefixes matches when the encoding of one
  of them is a prefix of the path.
\<close>

lemma matches_str_True:
  assumes "\<forall>p\<in>set (restricted_prefixes P). is_str p"
    and "PyStr q \<in> set (restricted_prefixes P)" and "prefix q s"
  shows "matches P (PyStr s) = Inr True"
  using assms by (simp add: matches_def str_startswith_True)

lemma matches_bytes_True:
  assumes "\<forall>p\<in>set (restricted_prefixes P). encodable p"
    and "PyStr q \<in> set (restricted_prefixes P)" and "encode q = Inr bq" and "prefix bq b"
  shows "matches P (PyBytes b) = Inr True"
proof -
  from assms(1) obtain bs where bs: "encode_prefixes (restricted_prefixes P) = Inr bs"
    using encode_prefixes_total by blast
  from encode_prefixes_mem [OF bs assms(2)] assms(3) have "bq \<in> set bs"
    by auto
  then have "bytes_startswith b bs"
    using assms(4) by (rule bytes_startswith_mem)
  with bs show ?thesis
    by (simp add: matches_def)
qed

text \<open>A policy whose prefixes are all encodable text never raises on a text or byte path.\<close>

lemma matches_total:
  assumes "\<forall>p\<in>set (restricted_prefixes P). encodable p"
  shows "(\<exists>m. matches P (PyStr s) = Inr m) \<and> (\<exists>m. matches P (PyBytes b) = Inr m)"
proof -
  from assms have "\<forall>p\<in>set (restricted_prefixes P). is_str p"
    by (simp add: encodable_is_str)
  then have "\<exists>m. str_startswith s (restricted_prefixes P) = Inr m"
    by (rule str_startswith_total)
  moreover from assms obtain bs where "encode_prefixes (restricted_prefixes P) = Inr bs"
    using encode_prefixes_total by blast
  ultimately show ?thesis
    by (auto simp: matches_def)
qed

section \<open>Properties of a single policy\<close>

text \<open>
  C8. A policy constructed with an empty prefix tuple matches no path: for every text
  path and every byte path, \<open>matches\<close> returns \<open>False\<close>.
\<close>

theorem matches_empty_prefixes:
  "matches \<lparr>restricted_prefixes = [], access_check = f\<rparr> (PyStr s) = Inr False \<and>
   matches \<lparr>restricted_prefixes = [], access_check = f\<rparr> (PyBytes b) = Inr False"
  by (simp add: matches_def bytes_startswith_def)

text \<open>
  C9. Prefix matching is the literal prefix test on code points, respectively on octets,
  and knows nothing of path segments: a policy with the one prefix \<open>q\<close> matches a text
  path exactly when \<open>q\<close> is a prefix of it, and a byte path exactly when the encoding
  of \<open>q\<close> is a prefix of it. So the policy with prefix \<^verbatim>\<open>"images"\<close> matches every
  text path and every byte path that starts with these characters, whatever follows
  them, and \<^verbatim>\<open>matches("imagesecret/x")\<close> is \<open>True\<close>.
\<close>

theorem matches_literal_prefix:
  "matches \<lparr>restricted_prefixes = [PyStr q], access_check = f\<rparr> (PyStr s) = Inr (prefix q s) \<and>
   matches \<lparr>restricted_prefixes = [PyStr q], access_check = f\<rparr> (PyBytes b) =
     (case encode q of Inl e \<Rightarrow> Inl e | Inr bq \<Rightarrow> Inr (prefix bq b)) \<and>
   matches \<lparr>restricted_prefixes = [PyStr (str_lit ''images'')], access_check = f\<rparr>
     (PyStr (str_lit ''images'' @ rest)) = Inr True \<and>
   matches \<lparr>restricted_prefixes = [PyStr (str_lit ''images'')], access_check = f\<rparr>
     (PyBytes (bytes_lit ''images'' @ rest')) = Inr True \<and>
   matches \<lparr>restricted_prefixes = [PyStr (str_lit ''images'')], access_check = f\<rparr>
     (PyStr (str_lit ''imagesecret/x'')) = Inr True"
proof -
  have enc: "encode (str_lit ''images'') = Inr (bytes_lit ''images'')"
    by (simp add: str_lit_def bytes_lit_def utf8_char_def)
  have one: "matches \<lparr>restricted_prefixes = [PyStr q], access_check = f\<rparr> (PyStr s) = Inr (prefix q s)"
    for q s
    by (simp add: matches_def)
  have two: "matches \<lparr>restricted_prefixes = [PyStr q], access_check = f\<rparr> (PyBytes b) =
     (case encode q of Inl e \<Rightarrow> Inl e | Inr bq \<Rightarrow> Inr (prefix bq b))" for q b
    by (simp add: matches_def bytes_startswith_def split: sum.splits)
  have three: "prefix (str_lit ''images'') (str_lit ''imagesecret/x'')"
    by (simp add: str_lit_def)
  show ?thesis
    by (simp add: one two enc three)
qed

text \<open>
  C2, as amended. A policy of text prefixes handles both representations of a path: it
  returns \<open>True\<close> for a text path that starts with one of its prefixes, and, when every
  prefix can be encoded as UTF-8, for a byte path whose decoded form \<open>s\<close> starts with one
  of its prefixes. There is no converse for byte prefixes, which the declared type
  \<^verbatim>\<open>tuple[str, ...]\<close> excludes: when the first prefix is a byte string, \<open>matches\<close>
  raises \<^verbatim>\<open>TypeError\<close> on every text path and \<^verbatim>\<open>AttributeError\<close> on every byte path.
\<close>

theorem matches_both_representations:
  "(PyStr q \<in> set (restricted_prefixes P) \<and> prefix q s \<and>
      (\<forall>p\<in>set (restricted_prefixes P). is_str p)
      \<longrightarrow> matches P (PyStr s) = Inr True) \<and>
   (PyStr q \<in> set (restricted_prefixes P) \<and> prefix q s \<and> encode s = Inr b \<and>
      (\<forall>p\<in>set (restricted_prefixes P). encodable p)
      \<longrightarrow> matches P (PyBytes b) = Inr True) \<and>
   matches \<lparr>restricted_prefixes = PyBytes bq # ps, access_check = f\<rparr> (PyStr s') =
     Inl (TypeError ''tuple for startswith must only contain str'') \<and>
   matches \<lparr>restricted_prefixes = PyBytes bq # ps, access_check = f\<rparr> (PyBytes b') =
     Inl (AttributeError ''object has no attribute encode'')"
proof -
  have text_path: "matches P (PyStr s) = Inr True"
    if "PyStr q \<in> set (restricted_prefixes P)" "prefix q s"
      "\<forall>p\<in>set (restricted_prefixes P). is_str p"
    using that by (simp add: matches_str_True)
  have byte_path: "matches P (PyBytes b) = Inr True"
    if mem: "PyStr q \<in> set (restricted_prefixes P)" and pre: "prefix q s"
      and enc: "encode s = Inr b" and ok: "\<forall>p\<in>set (restricted_prefixes P). encodable p"
  proof -
    from encode_prefix [OF enc pre] obtain qb where "encode q = Inr qb" "prefix qb b"
      by blast
    with ok mem show ?thesis
      by (rule matches_bytes_True)
  qed
  have byte_prefix_text:
    "matches \<lparr>restricted_prefixes = PyBytes bq # ps, access_check = f\<rparr> (PyStr s') =
       Inl (TypeError ''tuple for startswith must only contain str'')"
    by (simp add: matches_def)
  have byte_prefix_bytes:
    "matches \<lparr>restricted_prefixes = PyBytes bq # ps, access_check = f\<rparr> (PyBytes b') =
       Inl (AttributeError ''object has no attribute encode'')"
    by (simp add: matches_def)
  from text_path byte_path byte_prefix_text byte_prefix_bytes show ?thesis
    by blast
qed

text \<open>
  The policy of the package's test, \<^verbatim>\<open>MediaAccessPolicy(('images/',), ...)\<close>, matches
  the text path \<^verbatim>\<open>'images/a.jpg'\<close> and the byte path \<^verbatim>\<open>b'images/a.jpg'\<close>.
\<close>

theorem matches_both_representations_witness:
  "PyStr (str_lit ''images/'') \<in> set [PyStr (str_lit ''images/'')] \<and>
   prefix (str_lit ''images/'') (str_lit ''images/a.jpg'') \<and>
   encode (str_lit ''images/a.jpg'') = Inr (bytes_lit ''images/a.jpg'') \<and>
   list_all encodable [PyStr (str_lit ''images/'')] \<and>
   matches \<lparr>restricted_prefixes = [PyStr (str_lit ''images/'')],
            access_check = (\<lambda>(r::unit) p (s::unit). (Inr (PyBool True), s))\<rparr>
     (PyStr (str_lit ''images/a.jpg'')) = Inr True \<and>
   matches \<lparr>restricted_prefixes = [PyStr (str_lit ''images/'')],
            access_check = (\<lambda>(r::unit) p (s::unit). (Inr (PyBool True), s))\<rparr>
     (PyBytes (bytes_lit ''images/a.jpg'')) = Inr True"
proof -
  let ?P = "\<lparr>restricted_prefixes = [PyStr (str_lit ''images/'')],
             access_check = (\<lambda>(r::unit) p (s::unit). (Inr (PyBool True), s))\<rparr>"
  have mem: "PyStr (str_lit ''images/'') \<in> set (restricted_prefixes ?P)"
    by simp
  have pre: "prefix (str_lit ''images/'') (str_lit ''images/a.jpg'')"
    by (simp add: str_lit_def)
  have enc: "encode (str_lit ''images/a.jpg'') = Inr (bytes_lit ''images/a.jpg'')"
    by (simp add: str_lit_def bytes_lit_def utf8_char_def)
  have ok: "\<forall>p\<in>set (restricted_prefixes ?P). encodable p"
    by (simp add: encodable_def str_lit_def utf8_char_def)
  have strs: "\<forall>p\<in>set (restricted_prefixes ?P). is_str p"
    by simp
  from matches_both_representations [of "str_lit ''images/''" "?P" "str_lit ''images/a.jpg''"
      "bytes_lit ''images/a.jpg''"] mem pre enc ok strs
  have "matches ?P (PyStr (str_lit ''images/a.jpg'')) = Inr True"
    and "matches ?P (PyBytes (bytes_lit ''images/a.jpg'')) = Inr True"
    by blast+
  with mem pre enc ok show ?thesis
    by simp
qed

text \<open>
  C2 as stated fails for byte prefixes: the policy \<^verbatim>\<open>MediaAccessPolicy((b'images/',), ...)\<close>
  does not return \<open>True\<close> for the text path \<^verbatim>\<open>'images/a.jpg'\<close>, nor for the byte path
  \<^verbatim>\<open>b'images/a.jpg'\<close>: both calls raise.
\<close>

theorem matches_byte_prefixes_counterexample:
  "matches \<lparr>restricted_prefixes = [PyBytes (bytes_lit ''images/'')],
            access_check = (\<lambda>(r::unit) p (s::unit). (Inr (PyBool True), s))\<rparr>
     (PyStr (str_lit ''images/a.jpg'')) =
     Inl (TypeError ''tuple for startswith must only contain str'') \<and>
   matches \<lparr>restricted_prefixes = [PyBytes (bytes_lit ''images/'')],
            access_check = (\<lambda>(r::unit) p (s::unit). (Inr (PyBool True), s))\<rparr>
     (PyBytes (bytes_lit ''images/a.jpg'')) =
     Inl (AttributeError ''object has no attribute encode'')"
  by (simp add: matches_def)

section \<open>The registry: first match wins\<close>

lemma scan_policies_append:
  "scan_policies (xs @ ys) p =
     (case scan_policies xs p of Inr None \<Rightarrow> scan_policies ys p | r \<Rightarrow> r)"
  by (induction xs) (auto split: sum.splits option.splits)

lemma scan_policies_None_iff:
  "scan_policies ps p = Inr None \<longleftrightarrow> (\<forall>Q\<in>set ps. matches Q p = Inr False)"
  by (induction ps) (auto split: sum.splits)

lemma scan_policies_first:
  assumes "\<forall>Q\<in>set pre. matches Q p = Inr False" and "matches P p = Inr True"
  shows "scan_policies (pre @ P # post) p = Inr (Some P)"
proof -
  from assms(1) have "scan_policies pre p = Inr None"
    by (simp add: scan_policies_None_iff)
  with assms(2) show ?thesis
    by (simp add: scan_policies_append)
qed

text \<open>
  Over policies whose prefixes are all encodable text the scan raises nothing, on a text
  path and on a byte path: each policy answers \<open>True\<close> or \<open>False\<close>.
\<close>

lemma scan_policies_total:
  assumes "\<forall>Q\<in>set ps. \<forall>q\<in>set (restricted_prefixes Q). encodable q"
  shows "(\<exists>r. scan_policies ps (PyStr s) = Inr r) \<and> (\<exists>r. scan_policies ps (PyBytes b) = Inr r)"
  using assms
proof (induction ps)
  case Nil
  then show ?case by simp
next
  case (Cons Q ps)
  then have "\<forall>q\<in>set (restricted_prefixes Q). encodable q"
    by simp
  from matches_total [OF this, of s b] obtain m m' where
    "matches Q (PyStr s) = Inr m" "matches Q (PyBytes b) = Inr m'"
    by blast
  with Cons show ?case
    by auto
qed

text \<open>Whatever the scan returns is the first policy that matches.\<close>

lemma scan_policies_Some:
  "scan_policies ps p = Inr (Some P) \<Longrightarrow>
     \<exists>pre post. ps = pre @ P # post \<and> (\<forall>Q\<in>set pre. matches Q p = Inr False) \<and>
       matches P p = Inr True"
proof (induction ps)
  case Nil
  then show ?case by simp
next
  case (Cons a ps)
  show ?case
  proof (cases "matches a p")
    case (Inl e)
    with Cons.prems show ?thesis by simp
  next
    case (Inr m)
    show ?thesis
    proof (cases m)
      case True
      with Inr Cons.prems have "a = P" by simp
      with Inr True have "a # ps = [] @ P # ps \<and>
          (\<forall>Q\<in>set []. matches Q p = Inr False) \<and> matches P p = Inr True"
        by simp
      then show ?thesis by blast
    next
      case False
      with Inr Cons.prems have "scan_policies ps p = Inr (Some P)" by simp
      from Cons.IH [OF this] obtain pre post where
        "ps = pre @ P # post" "\<forall>Q\<in>set pre. matches Q p = Inr False" "matches P p = Inr True"
        by blast
      with Inr False have "a # ps = (a # pre) @ P # post \<and>
          (\<forall>Q\<in>set (a # pre). matches Q p = Inr False) \<and> matches P p = Inr True"
        by simp
      then show ?thesis by blast
    qed
  qed
qed

text \<open>
  C3. \<open>get_policy_for_path\<close> scans the policies in registration order. When
  \<open>policies R = pre @ Pi # post\<close>, every policy of \<open>pre\<close> answers \<open>False\<close> to \<open>matches\<close>
  and \<open>Pi\<close> answers \<open>True\<close>, the result is \<open>Pi\<close>, the matching policy of lowest index;
  when every policy answers \<open>False\<close> the result is \<^verbatim>\<open>None\<close>. Conversely a returned
  policy is always that first match, and \<^verbatim>\<open>None\<close> is only returned when no policy
  matches. In particular, when the path matches both \<open>P1\<close> and \<open>P2\<close>, registered in this
  order at the head, the result is \<open>P1\<close>.
\<close>

theorem get_policy_for_path_first_match:
  "(policies R = pre @ Pi # post \<and> (\<forall>Q\<in>set pre. matches Q p = Inr False) \<and>
      matches Pi p = Inr True
      \<longrightarrow> get_policy_for_path R p = Inr (Some Pi) \<and> policies R ! length pre = Pi) \<and>
   ((\<forall>Q\<in>set (policies R). matches Q p = Inr False) \<longrightarrow> get_policy_for_path R p = Inr None) \<and>
   (get_policy_for_path R p = Inr (Some P)
      \<longrightarrow> (\<exists>pre' post'. policies R = pre' @ P # post' \<and>
             (\<forall>Q\<in>set pre'. matches Q p = Inr False) \<and> matches P p = Inr True)) \<and>
   (get_policy_for_path R p = Inr None \<longrightarrow> (\<forall>Q\<in>set (policies R). matches Q p = Inr False)) \<and>
   (policies R = P1 # P2 # rest \<and> matches P1 p = Inr True \<and> matches P2 p = Inr True
      \<longrightarrow> get_policy_for_path R p = Inr (Some P1))"
proof -
  have first: "get_policy_for_path R p = Inr (Some Pi) \<and> policies R ! length pre = Pi"
    if "policies R = pre @ Pi # post" "\<forall>Q\<in>set pre. matches Q p = Inr False"
      "matches Pi p = Inr True"
    using that by (simp add: get_policy_for_path_def scan_policies_first)
  have none: "get_policy_for_path R p = Inr None"
    if "\<forall>Q\<in>set (policies R). matches Q p = Inr False"
    using that by (simp add: get_policy_for_path_def scan_policies_None_iff)
  have some_conv: "\<exists>pre' post'. policies R = pre' @ P # post' \<and>
      (\<forall>Q\<in>set pre'. matches Q p = Inr False) \<and> matches P p = Inr True"
    if "get_policy_for_path R p = Inr (Some P)"
    using that unfolding get_policy_for_path_def by (rule scan_policies_Some)
  have none_conv: "\<forall>Q\<in>set (policies R). matches Q p = Inr False"
    if "get_policy_for_path R p = Inr None"
    using that by (simp add: get_policy_for_path_def scan_policies_None_iff)
  have both: "get_policy_for_path R p = Inr (Some P1)"
    if "policies R = P1 # P2 # rest" "matches P1 p = Inr True" "matches P2 p = Inr True"
    using that by (simp add: get_policy_for_path_def)
  from first none some_conv none_conv both show ?thesis
    by blast
qed

text \<open>
  Three policies over \<^verbatim>\<open>'profiles/'\<close>, \<^verbatim>\<open>'images/'\<close> and \<^verbatim>\<open>'images/a'\<close>, registered in
  this order: the path \<^verbatim>\<open>'images/a.jpg'\<close> matches the second and the third, and resolves
  to the second.
\<close>

theorem get_policy_for_path_first_match_witness:
  "matches \<lparr>restricted_prefixes = [PyStr (str_lit ''profiles/'')],
            access_check = (is_authenticated_check :: request \<Rightarrow> pyval \<Rightarrow> (unit, pyval) py)\<rparr>
     (PyStr (str_lit ''images/a.jpg'')) = Inr False \<and>
   matches (test_policy :: (request, unit) MediaAccessPolicy)
     (PyStr (str_lit ''images/a.jpg'')) = Inr True \<and>
   matches \<lparr>restricted_prefixes = [PyStr (str_lit ''images/a'')],
            access_check = (is_authenticated_check :: request \<Rightarrow> pyval \<Rightarrow> (unit, pyval) py)\<rparr>
     (PyStr (str_lit ''images/a.jpg'')) = Inr True \<and>
   get_policy_for_path
     \<lparr>policies =
        [\<lparr>restricted_prefixes = [PyStr (str_lit ''profiles/'')],
          access_check = is_authenticated_check\<rparr>,
         test_policy,
         \<lparr>restricted_prefixes = [PyStr (str_lit ''images/a'')],
          access_check = is_authenticated_check\<rparr>],
      default_allow = PyBool True\<rparr>
     (PyStr (str_lit ''images/a.jpg'')) =
     Inr (Some (test_policy :: (request, unit) MediaAccessPolicy))"
proof -
  let ?A = "\<lparr>restricted_prefixes = [PyStr (str_lit ''profiles/'')],
             access_check = (is_authenticated_check :: request \<Rightarrow> pyval \<Rightarrow> (unit, pyval) py)\<rparr>"
  let ?B = "test_policy :: (request, unit) MediaAccessPolicy"
  let ?C = "\<lparr>restricted_prefixes = [PyStr (str_lit ''images/a'')],
             access_check = (is_authenticated_check :: request \<Rightarrow> pyval \<Rightarrow> (unit, pyval) py)\<rparr>"
  let ?R = "\<lparr>policies = [?A, ?B, ?C], default_allow = PyBool True\<rparr>"
  let ?p = "PyStr (str_lit ''images/a.jpg'')"
  have a: "matches ?A ?p = Inr False"
    by (simp add: matches_def str_lit_def)
  have b: "matches ?B ?p = Inr True"
    by (simp add: matches_def test_policy_def str_lit_def)
  have c: "matches ?C ?p = Inr True"
    by (simp add: matches_def str_lit_def)
  have split: "policies ?R = [?A] @ ?B # [?C]"
    by simp
  from a have pre: "\<forall>Q\<in>set [?A]. matches Q ?p = Inr False"
    by simp
  from get_policy_for_path_first_match [where R = "?R" and pre = "[?A]" and Pi = "?B"
      and post = "[?C]" and p = "?p"] split pre b
  have "get_policy_for_path ?R ?p = Inr (Some ?B)"
    by blast
  with a b c show ?thesis
    by simp
qed

text \<open>
  C4. When no policy of the registry matches the path (each answers \<open>False\<close>),
  \<open>is_allowed\<close> returns the registry's \<open>default_allow\<close> and calls no predicate; when
  some policy matches, it returns what the first matching policy's \<open>is_allowed\<close>
  returns for the same request and path, which is what its predicate returns.
\<close>

theorem registry_is_allowed_decision:
  "((\<forall>Q\<in>set (policies R). matches Q p = Inr False)
      \<longrightarrow> registry_is_allowed R ctx p s = (Inr (default_allow R), s)) \<and>
   (policies R = pre @ P # post \<and> (\<forall>Q\<in>set pre. matches Q p = Inr False) \<and>
      matches P p = Inr True
      \<longrightarrow> registry_is_allowed R ctx p s = policy_is_allowed P ctx p s \<and>
          registry_is_allowed R ctx p s = access_check P ctx p s)"
proof -
  have unmatched: "registry_is_allowed R ctx p s = (Inr (default_allow R), s)"
    if "\<forall>Q\<in>set (policies R). matches Q p = Inr False"
  proof -
    from that have "get_policy_for_path R p = Inr None"
      by (simp add: get_policy_for_path_def scan_policies_None_iff)
    then show ?thesis
      by (simp add: registry_is_allowed_def)
  qed
  have matched: "registry_is_allowed R ctx p s = policy_is_allowed P ctx p s \<and>
      registry_is_allowed R ctx p s = access_check P ctx p s"
    if "policies R = pre @ P # post" "\<forall>Q\<in>set pre. matches Q p = Inr False"
      "matches P p = Inr True"
  proof -
    from that have "get_policy_for_path R p = Inr (Some P)"
      by (simp add: get_policy_for_path_def scan_policies_first)
    then show ?thesis
      by (simp add: registry_is_allowed_def policy_is_allowed_def)
  qed
  from unmatched matched show ?thesis
    by blast
qed

text \<open>
  The scenario of the specification: the registry holds \<open>auth_policy\<close> and allows by
  default. An anonymous request for \<^verbatim>\<open>'general/x.png'\<close> falls to the default; requests
  for \<^verbatim>\<open>'images/x.png'\<close> get the predicate's answer.
\<close>

theorem registry_is_allowed_decision_witness:
  "matches (auth_policy :: (request, unit) MediaAccessPolicy) (PyStr (str_lit ''general/x.png''))
     = Inr False \<and>
   matches (auth_policy :: (request, unit) MediaAccessPolicy) (PyStr (str_lit ''images/x.png''))
     = Inr True \<and>
   registry_is_allowed \<lparr>policies = [auth_policy], default_allow = PyBool True\<rparr>
     \<lparr>user_is_authenticated = False\<rparr> (PyStr (str_lit ''general/x.png'')) ()
     = (Inr (PyBool True), ()) \<and>
   registry_is_allowed \<lparr>policies = [auth_policy], default_allow = PyBool True\<rparr>
     \<lparr>user_is_authenticated = False\<rparr> (PyStr (str_lit ''images/x.png'')) ()
     = (Inr (PyBool False), ()) \<and>
   registry_is_allowed \<lparr>policies = [auth_policy], default_allow = PyBool True\<rparr>
     \<lparr>user_is_authenticated = True\<rparr> (PyStr (str_lit ''images/x.png'')) ()
     = (Inr (PyBool True), ())"
proof -
  let ?P = "auth_policy :: (request, unit) MediaAccessPolicy"
  let ?R = "\<lparr>policies = [?P], default_allow = PyBool True\<rparr>"
  let ?general = "PyStr (str_lit ''general/x.png'')"
  let ?images = "PyStr (str_lit ''images/x.png'')"
  have g: "matches ?P ?general = Inr False"
    by (simp add: matches_def auth_policy_def str_lit_def)
  have i: "matches ?P ?images = Inr True"
    by (simp add: matches_def auth_policy_def str_lit_def)
  from g have all_false: "\<forall>Q\<in>set (policies ?R). matches Q ?general = Inr False"
    by simp
  have split: "policies ?R = [] @ ?P # []"
    by simp
  have pre: "\<forall>Q\<in>set []. matches Q ?images = Inr False"
    by simp
  from registry_is_allowed_decision [where R = "?R" and p = "?general"
      and ctx = "\<lparr>user_is_authenticated = False\<rparr>" and s = "()"] all_false
  have r1: "registry_is_allowed ?R \<lparr>user_is_authenticated = False\<rparr> ?general ()
      = (Inr (PyBool True), ())"
    by simp
  from registry_is_allowed_decision [where R = "?R" and p = "?images" and pre = "[]"
      and P = "?P" and post = "[]" and ctx = "\<lparr>user_is_authenticated = False\<rparr>" and s = "()"]
    split pre i
  have "registry_is_allowed ?R \<lparr>user_is_authenticated = False\<rparr> ?images ()
      = access_check ?P \<lparr>user_is_authenticated = False\<rparr> ?images ()"
    by blast
  then have r2: "registry_is_allowed ?R \<lparr>user_is_authenticated = False\<rparr> ?images ()
      = (Inr (PyBool False), ())"
    by (simp add: auth_policy_def is_authenticated_check_def)
  from registry_is_allowed_decision [where R = "?R" and p = "?images" and pre = "[]"
      and P = "?P" and post = "[]" and ctx = "\<lparr>user_is_authenticated = True\<rparr>" and s = "()"]
    split pre i
  have "registry_is_allowed ?R \<lparr>user_is_authenticated = True\<rparr> ?images ()
      = access_check ?P \<lparr>user_is_authenticated = True\<rparr> ?images ()"
    by blast
  then have r3: "registry_is_allowed ?R \<lparr>user_is_authenticated = True\<rparr> ?images ()
      = (Inr (PyBool True), ())"
    by (simp add: auth_policy_def is_authenticated_check_def)
  from g i r1 r2 r3 show ?thesis
    by simp
qed

text \<open>
  C7. \<open>register\<close> appends and changes nothing else. For every path, (1) if the registry
  resolved the path to a policy \<open>Q\<close> before the call, it resolves it to \<open>Q\<close> after the
  call, and (2) if no policy registered earlier matches the path and the new policy
  \<open>P\<close> does, the path resolves to \<open>P\<close> after the call.
\<close>

theorem registry_register_append_only:
  "policies (registry_register R P) = policies R @ [P] \<and>
   default_allow (registry_register R P) = default_allow R \<and>
   (get_policy_for_path R p = Inr (Some Q)
      \<longrightarrow> get_policy_for_path (registry_register R P) p = Inr (Some Q)) \<and>
   ((\<forall>Q'\<in>set (policies R). matches Q' p = Inr False) \<and> matches P p = Inr True
      \<longrightarrow> get_policy_for_path (registry_register R P) p = Inr (Some P))"
proof -
  have kept: "get_policy_for_path (registry_register R P) p = Inr (Some Q)"
    if "get_policy_for_path R p = Inr (Some Q)"
    using that
    by (simp add: get_policy_for_path_def registry_register_def scan_policies_append)
  have new: "get_policy_for_path (registry_register R P) p = Inr (Some P)"
    if "\<forall>Q'\<in>set (policies R). matches Q' p = Inr False" "matches P p = Inr True"
    using that scan_policies_first [of "policies R" p P "[]"]
    by (simp add: get_policy_for_path_def registry_register_def)
  from kept new show ?thesis
    by (simp add: registry_register_def)
qed

text \<open>
  The registry of the test, then \<open>register\<close> of a policy over \<^verbatim>\<open>'profiles/'\<close>:
  \<^verbatim>\<open>'images/a.jpg'\<close> resolved to \<open>test_policy\<close> and still does;
  \<^verbatim>\<open>'profiles/u.png'\<close> matched nothing and now resolves to the new policy.
\<close>

theorem registry_register_append_only_witness:
  "get_policy_for_path (test_registry :: (request, unit) MediaAccessPolicyRegistry)
     (PyStr (str_lit ''images/a.jpg'')) = Inr (Some test_policy) \<and>
   get_policy_for_path
     (registry_register (test_registry :: (request, unit) MediaAccessPolicyRegistry)
        \<lparr>restricted_prefixes = [PyStr (str_lit ''profiles/'')],
         access_check = is_authenticated_check\<rparr>)
     (PyStr (str_lit ''images/a.jpg'')) = Inr (Some test_policy) \<and>
   get_policy_for_path (test_registry :: (request, unit) MediaAccessPolicyRegistry)
     (PyStr (str_lit ''profiles/u.png'')) = Inr None \<and>
   get_policy_for_path
     (registry_register (test_registry :: (request, unit) MediaAccessPolicyRegistry)
        \<lparr>restricted_prefixes = [PyStr (str_lit ''profiles/'')],
         access_check = is_authenticated_check\<rparr>)
     (PyStr (str_lit ''profiles/u.png'')) =
     Inr (Some \<lparr>restricted_prefixes = [PyStr (str_lit ''profiles/'')],
                access_check = is_authenticated_check\<rparr>)"
proof -
  let ?R = "test_registry :: (request, unit) MediaAccessPolicyRegistry"
  let ?P = "\<lparr>restricted_prefixes = [PyStr (str_lit ''profiles/'')],
             access_check = (is_authenticated_check :: request \<Rightarrow> pyval \<Rightarrow> (unit, pyval) py)\<rparr>"
  let ?images = "PyStr (str_lit ''images/a.jpg'')"
  let ?profiles = "PyStr (str_lit ''profiles/u.png'')"
  have before_images: "get_policy_for_path ?R ?images = Inr (Some test_policy)"
    by (simp add: get_policy_for_path_def test_registry_def test_policy_def matches_def
        str_lit_def)
  have unmatched: "\<forall>Q'\<in>set (policies ?R). matches Q' ?profiles = Inr False"
    by (simp add: test_registry_def test_policy_def matches_def str_lit_def)
  then have before_profiles: "get_policy_for_path ?R ?profiles = Inr None"
    by (simp add: get_policy_for_path_def scan_policies_None_iff)
  have new: "matches ?P ?profiles = Inr True"
    by (simp add: matches_def str_lit_def)
  from registry_register_append_only [where R = "?R" and P = "?P" and p = "?images"
      and Q = test_policy] before_images
  have after_images: "get_policy_for_path (registry_register ?R ?P) ?images
      = Inr (Some test_policy)"
    by blast
  from registry_register_append_only [where R = "?R" and P = "?P" and p = "?profiles"]
    unmatched new
  have after_profiles: "get_policy_for_path (registry_register ?R ?P) ?profiles = Inr (Some ?P)"
    by blast
  from before_images after_images before_profiles after_profiles show ?thesis
    by simp
qed

section \<open>The empty prefix\<close>

text \<open>
  C10, as amended. A policy whose prefix tuple contains the empty string \<^verbatim>\<open>""\<close> matches
  every text path, the empty one included, when all its prefixes are text, and every byte
  path, the empty one included, when moreover each prefix can be encoded as UTF-8. In a
  registry, a policy \<open>P\<close> that matches the path is the result unless one registered before
  it is: the outcome of the scan over the earlier policies stands whenever it is not
  \<^verbatim>\<open>None\<close>, and the policies after \<open>P\<close> are never reached.
\<close>

theorem matches_empty_string_prefix:
  "(PyStr [] \<in> set (restricted_prefixes P) \<and> (\<forall>q\<in>set (restricted_prefixes P). is_str q)
      \<longrightarrow> matches P (PyStr s) = Inr True \<and> matches P (PyStr []) = Inr True) \<and>
   (PyStr [] \<in> set (restricted_prefixes P) \<and> (\<forall>q\<in>set (restricted_prefixes P). encodable q)
      \<longrightarrow> matches P (PyBytes b) = Inr True \<and> matches P (PyBytes []) = Inr True) \<and>
   (matches P p = Inr True \<and> policies R = pre @ P # post
      \<longrightarrow> get_policy_for_path R p =
          (case get_policy_for_path (R\<lparr>policies := pre\<rparr>) p of
             Inr None \<Rightarrow> Inr (Some P)
           | r \<Rightarrow> r))"
proof -
  have text_path: "matches P (PyStr s') = Inr True"
    if "PyStr [] \<in> set (restricted_prefixes P)" "\<forall>q\<in>set (restricted_prefixes P). is_str q"
    for s'
    using that by (simp add: matches_str_True)
  have byte_path: "matches P (PyBytes b') = Inr True"
    if "PyStr [] \<in> set (restricted_prefixes P)" "\<forall>q\<in>set (restricted_prefixes P). encodable q"
    for b'
    using that matches_bytes_True [of P "[]" "[]" b'] by simp
  have resolved: "get_policy_for_path R p =
      (case get_policy_for_path (R\<lparr>policies := pre\<rparr>) p of
         Inr None \<Rightarrow> Inr (Some P)
       | r \<Rightarrow> r)"
    if "matches P p = Inr True" "policies R = pre @ P # post"
    using that
    by (simp add: get_policy_for_path_def scan_policies_append split: sum.splits option.splits)
  from text_path byte_path resolved show ?thesis
    by blast
qed

text \<open>
  A policy over \<^verbatim>\<open>("", "images/")\<close> matches the empty text path and the byte path
  \<^verbatim>\<open>b'x'\<close>. Registered between \<open>test_policy\<close> and \<open>auth_policy\<close>, it leaves
  \<^verbatim>\<open>'images/a.jpg'\<close> to \<open>test_policy\<close> and takes \<^verbatim>\<open>'profiles/u.png'\<close>, which
  \<open>auth_policy\<close> would match.
\<close>

theorem matches_empty_string_prefix_witness:
  "list_all encodable [PyStr [], PyStr (str_lit ''images/'')] \<and>
   matches \<lparr>restricted_prefixes = [PyStr [], PyStr (str_lit ''images/'')],
            access_check = (is_authenticated_check :: request \<Rightarrow> pyval \<Rightarrow> (unit, pyval) py)\<rparr>
     (PyStr []) = Inr True \<and>
   matches \<lparr>restricted_prefixes = [PyStr [], PyStr (str_lit ''images/'')],
            access_check = (is_authenticated_check :: request \<Rightarrow> pyval \<Rightarrow> (unit, pyval) py)\<rparr>
     (PyBytes (bytes_lit ''x'')) = Inr True \<and>
   get_policy_for_path
     \<lparr>policies =
        [test_policy,
         \<lparr>restricted_prefixes = [PyStr [], PyStr (str_lit ''images/'')],
          access_check = (is_authenticated_check :: request \<Rightarrow> pyval \<Rightarrow> (unit, pyval) py)\<rparr>,
         auth_policy],
      default_allow = PyBool True\<rparr>
     (PyStr (str_lit ''images/a.jpg'')) = Inr (Some test_policy) \<and>
   get_policy_for_path
     \<lparr>policies =
        [test_policy,
         \<lparr>restricted_prefixes = [PyStr [], PyStr (str_lit ''images/'')],
          access_check = (is_authenticated_check :: request \<Rightarrow> pyval \<Rightarrow> (unit, pyval) py)\<rparr>,
         auth_policy],
      default_allow = PyBool True\<rparr>
     (PyStr (str_lit ''profiles/u.png'')) =
     Inr (Some \<lparr>restricted_prefixes = [PyStr [], PyStr (str_lit ''images/'')],
                access_check = is_authenticated_check\<rparr>)"
proof -
  let ?P = "\<lparr>restricted_prefixes = [PyStr [], PyStr (str_lit ''images/'')],
             access_check = (is_authenticated_check :: request \<Rightarrow> pyval \<Rightarrow> (unit, pyval) py)\<rparr>"
  let ?R = "\<lparr>policies = [test_policy, ?P, auth_policy], default_allow = PyBool True\<rparr>"
  let ?images = "PyStr (str_lit ''images/a.jpg'')"
  let ?profiles = "PyStr (str_lit ''profiles/u.png'')"
  have mem: "PyStr [] \<in> set (restricted_prefixes ?P)"
    by simp
  have enc: "\<forall>q\<in>set (restricted_prefixes ?P). encodable q"
    by (simp add: encodable_def str_lit_def utf8_char_def)
  then have strs: "\<forall>q\<in>set (restricted_prefixes ?P). is_str q"
    by (simp add: encodable_is_str)
  have split: "policies ?R = [test_policy] @ ?P # [auth_policy]"
    by simp
  have before_images: "get_policy_for_path (?R\<lparr>policies := [test_policy]\<rparr>) ?images
      = Inr (Some test_policy)"
    by (simp add: get_policy_for_path_def test_policy_def matches_def str_lit_def)
  have before_profiles: "get_policy_for_path (?R\<lparr>policies := [test_policy]\<rparr>) ?profiles
      = Inr None"
    by (simp add: get_policy_for_path_def test_policy_def matches_def str_lit_def)
  from matches_empty_string_prefix [where P = "?P" and s = "str_lit ''images/a.jpg''"
      and b = "bytes_lit ''x''" and p = "?images" and R = "?R" and pre = "[test_policy]"
      and post = "[auth_policy]"] mem enc strs split
  have m1: "matches ?P (PyStr []) = Inr True"
    and m2: "matches ?P (PyBytes (bytes_lit ''x'')) = Inr True"
    and m3: "matches ?P ?images = Inr True"
    and r1: "matches ?P ?images = Inr True \<longrightarrow> get_policy_for_path ?R ?images =
      (case get_policy_for_path (?R\<lparr>policies := [test_policy]\<rparr>) ?images of
         Inr None \<Rightarrow> Inr (Some ?P)
       | r \<Rightarrow> r)"
    by blast+
  from matches_empty_string_prefix [where P = "?P" and s = "str_lit ''profiles/u.png''"
      and p = "?profiles" and R = "?R" and pre = "[test_policy]" and post = "[auth_policy]"]
    mem strs split
  have m4: "matches ?P ?profiles = Inr True"
    and r2: "matches ?P ?profiles = Inr True \<longrightarrow> get_policy_for_path ?R ?profiles =
      (case get_policy_for_path (?R\<lparr>policies := [test_policy]\<rparr>) ?profiles of
         Inr None \<Rightarrow> Inr (Some ?P)
       | r \<Rightarrow> r)"
    by blast+
  from r1 m3 before_images have g1: "get_policy_for_path ?R ?images = Inr (Some test_policy)"
    by simp
  from r2 m4 before_profiles have g2: "get_policy_for_path ?R ?profiles = Inr (Some ?P)"
    by simp
  from enc have "list_all encodable [PyStr [], PyStr (str_lit ''images/'')]"
    by simp
  with m1 m2 g1 g2 show ?thesis
    by simp
qed

text \<open>
  C10 as stated fails on a byte path when another prefix of the tuple cannot be encoded:
  for a policy over \<^verbatim>\<open>""\<close> and the lone surrogate U+D800 the call \<^verbatim>\<open>matches(b"x")\<close> raises
  \<^verbatim>\<open>UnicodeEncodeError\<close> instead of returning \<open>True\<close>, since every prefix is encoded
  before any is compared.
\<close>

theorem matches_empty_string_prefix_counterexample:
  "PyStr [] \<in> set (restricted_prefixes
      \<lparr>restricted_prefixes = [PyStr [], PyStr [0xD800]],
       access_check = (is_authenticated_check :: request \<Rightarrow> pyval \<Rightarrow> (unit, pyval) py)\<rparr>) \<and>
   matches \<lparr>restricted_prefixes = [PyStr [], PyStr [0xD800]],
            access_check = (is_authenticated_check :: request \<Rightarrow> pyval \<Rightarrow> (unit, pyval) py)\<rparr>
     (PyBytes (bytes_lit ''x'')) = Inl (UnicodeEncodeError ''surrogates not allowed'')"
  by (simp add: matches_def utf8_char_def)

section \<open>The gate\<close>

text \<open>What \<open>check_path\<close> does with each outcome of the registry's \<open>is_allowed\<close>.\<close>

lemma check_path_cases:
  "check_path view_func policy_registry default_registry request path args s =
     (case registry_is_allowed (effective_registry policy_registry default_registry)
             request path s of
        (Inl e, s') \<Rightarrow> (Inl e, s')
      | (Inr allowed, s') \<Rightarrow>
          (if truthy allowed then view_func request path args s'
           else (Inl (Http404 ''Restricted media file''), s')))"
  by (simp add: check_path_def split: prod.splits sum.splits)

text \<open>
  C1. Let \<open>R\<close> be the registry the gate consults. If \<open>R.is_allowed(ctx, p)\<close> is
  \<open>False\<close>, the wrapped operation raises \<^verbatim>\<open>Http404\<close>, which is no
  \<^verbatim>\<open>PermissionDenied\<close>, and \<open>op\<close> is not invoked: the outcome and the state are those
  \<open>is_allowed\<close> left, whatever \<open>op\<close> is. If it is \<open>True\<close>, the wrapped operation is
  \<open>op\<close> applied to the same request, path and further arguments, in the state
  \<open>is_allowed\<close> left, and its outcome is returned as it is.
\<close>

theorem secure_media_path_gate:
  "(registry_is_allowed (effective_registry policy_registry default_registry) ctx p s
      = (Inr (PyBool False), s')
      \<longrightarrow> secure_media_path op policy_registry default_registry ctx p args s
            = (Inl (Http404 ''Restricted media file''), s') \<and>
          fst (secure_media_path op policy_registry default_registry ctx p args s)
            \<noteq> Inl (PermissionDenied m) \<and>
          secure_media_path op policy_registry default_registry ctx p args s
            = secure_media_path op' policy_registry default_registry ctx p args s) \<and>
   (registry_is_allowed (effective_registry policy_registry default_registry) ctx p s
      = (Inr (PyBool True), s')
      \<longrightarrow> secure_media_path op policy_registry default_registry ctx p args s
            = op ctx p args s')"
proof -
  let ?R = "effective_registry policy_registry default_registry"
  have denied: "secure_media_path op policy_registry default_registry ctx p args s
      = (Inl (Http404 ''Restricted media file''), s')"
    if "registry_is_allowed ?R ctx p s = (Inr (PyBool False), s')"
    using that by (simp add: secure_media_path_def check_path_cases)
  have denied': "secure_media_path op' policy_registry default_registry ctx p args s
      = (Inl (Http404 ''Restricted media file''), s')"
    if "registry_is_allowed ?R ctx p s = (Inr (PyBool False), s')"
    using that by (simp add: secure_media_path_def check_path_cases)
  have forwarded: "secure_media_path op policy_registry default_registry ctx p args s
      = op ctx p args s'"
    if "registry_is_allowed ?R ctx p s = (Inr (PyBool True), s')"
    using that by (simp add: secure_media_path_def check_path_cases)
  from denied denied' forwarded show ?thesis
    by simp
qed

text \<open>
  The two tests of \<^verbatim>\<open>tests.py\<close>, with a view that counts its calls in the state: the
  anonymous request is answered by \<^verbatim>\<open>Http404\<close> and the counter stays at 0; the
  authenticated request gets the view's response and the counter is 1.
\<close>

theorem secure_media_path_gate_witness:
  "registry_is_allowed (effective_registry (Some test_registry) \<lparr>policies = [], default_allow = PyBool True\<rparr>)
     \<lparr>user_is_authenticated = False\<rparr> (PyStr (str_lit ''images/a.jpg'')) (0::nat)
     = (Inr (PyBool False), 0) \<and>
   secure_media_path (\<lambda>r p (a::unit) n. (Inr (HttpResponse ''OK''), Suc n))
     (Some test_registry) \<lparr>policies = [], default_allow = PyBool True\<rparr>
     \<lparr>user_is_authenticated = False\<rparr> (PyStr (str_lit ''images/a.jpg'')) () (0::nat)
     = (Inl (Http404 ''Restricted media file''), 0) \<and>
   registry_is_allowed (effective_registry (Some test_registry) \<lparr>policies = [], default_allow = PyBool True\<rparr>)
     \<lparr>user_is_authenticated = True\<rparr> (PyStr (str_lit ''images/a.jpg'')) (0::nat)
     = (Inr (PyBool True), 0) \<and>
   secure_media_path (\<lambda>r p (a::unit) n. (Inr (HttpResponse ''OK''), Suc n))
     (Some test_registry) \<lparr>policies = [], default_allow = PyBool True\<rparr>
     \<lparr>user_is_authenticated = True\<rparr> (PyStr (str_lit ''images/a.jpg'')) () (0::nat)
     = (Inr (HttpResponse ''OK''), 1)"
proof -
  let ?D = "\<lparr>policies = [], default_allow = PyBool True\<rparr> :: (request, nat) MediaAccessPolicyRegistry"
  let ?op = "\<lambda>(r::request) (p::pyval) (a::unit) n. (Inr (HttpResponse ''OK'') :: exn + response, Suc n)"
  let ?p = "PyStr (str_lit ''images/a.jpg'')"
  have denied: "registry_is_allowed (effective_registry (Some test_registry) ?D)
      \<lparr>user_is_authenticated = False\<rparr> ?p (0::nat) = (Inr (PyBool False), 0)"
    by (simp add: effective_registry_def registry_is_allowed_def get_policy_for_path_def
        test_registry_def test_policy_def matches_def str_lit_def policy_is_allowed_def
        is_authenticated_check_def)
  have allowed: "registry_is_allowed (effective_registry (Some test_registry) ?D)
      \<lparr>user_is_authenticated = True\<rparr> ?p (0::nat) = (Inr (PyBool True), 0)"
    by (simp add: effective_registry_def registry_is_allowed_def get_policy_for_path_def
        test_registry_def test_policy_def matches_def str_lit_def policy_is_allowed_def
        is_authenticated_check_def)
  from secure_media_path_gate [where policy_registry = "Some test_registry"
      and default_registry = "?D" and ctx = "\<lparr>user_is_authenticated = False\<rparr>" and p = "?p"
      and s = 0 and s' = 0 and op = "?op" and args = "()"] denied
  have r1: "secure_media_path ?op (Some test_registry) ?D \<lparr>user_is_authenticated = False\<rparr>
      ?p () 0 = (Inl (Http404 ''Restricted media file''), 0)"
    by blast
  from secure_media_path_gate [where policy_registry = "Some test_registry"
      and default_registry = "?D" and ctx = "\<lparr>user_is_authenticated = True\<rparr>" and p = "?p"
      and s = 0 and s' = 0 and op = "?op" and args = "()"] allowed
  have "secure_media_path ?op (Some test_registry) ?D \<lparr>user_is_authenticated = True\<rparr>
      ?p () 0 = ?op \<lparr>user_is_authenticated = True\<rparr> ?p () 0"
    by blast
  then have r2: "secure_media_path ?op (Some test_registry) ?D \<lparr>user_is_authenticated = True\<rparr>
      ?p () 0 = (Inr (HttpResponse ''OK''), 1)"
    by simp
  from denied r1 allowed r2 show ?thesis
    by simp
qed

text \<open>
  C6. When the registry resolves the path to the policy \<open>P\<close> and the predicate of \<open>P\<close>,
  applied to the request and the path, raises \<open>e\<close>, then \<open>R.is_allowed\<close> raises \<open>e\<close>, and
  the operation wrapped by a gate that consults \<open>R\<close> raises \<open>e\<close> as well, in the state the
  predicate left: the failure is neither caught nor turned into \<^verbatim>\<open>Http404\<close>, and \<open>op\<close>
  is not invoked.
\<close>

theorem predicate_failure_propagates:
  "get_policy_for_path R p = Inr (Some P) \<and> access_check P ctx p s = (Inl e, s') \<and>
   effective_registry policy_registry default_registry = R
   \<longrightarrow> policy_is_allowed P ctx p s = (Inl e, s') \<and>
       registry_is_allowed R ctx p s = (Inl e, s') \<and>
       secure_media_path op policy_registry default_registry ctx p args s = (Inl e, s')"
  by (simp add: secure_media_path_def check_path_cases registry_is_allowed_def
      policy_is_allowed_def)

text \<open>
  A policy over \<^verbatim>\<open>'images/'\<close> whose predicate raises: the gate raises the predicate's
  exception, not \<^verbatim>\<open>Http404\<close>, and the counting view is not called.
\<close>

theorem predicate_failure_propagates_witness:
  "get_policy_for_path
     \<lparr>policies = [\<lparr>restricted_prefixes = [PyStr (str_lit ''images/'')],
                   access_check = (\<lambda>(r::request) p (n::nat). (Inl (Raised ''boom''), n))\<rparr>],
      default_allow = PyBool False\<rparr>
     (PyStr (str_lit ''images/a.jpg''))
     = Inr (Some \<lparr>restricted_prefixes = [PyStr (str_lit ''images/'')],
                  access_check = (\<lambda>(r::request) p (n::nat). (Inl (Raised ''boom''), n))\<rparr>) \<and>
   secure_media_path (\<lambda>r p (a::unit) n. (Inr (HttpResponse ''OK''), Suc n))
     (Some \<lparr>policies = [\<lparr>restricted_prefixes = [PyStr (str_lit ''images/'')],
                         access_check = (\<lambda>(r::request) p (n::nat). (Inl (Raised ''boom''), n))\<rparr>],
            default_allow = PyBool False\<rparr>)
     \<lparr>policies = [], default_allow = PyBool True\<rparr>
     \<lparr>user_is_authenticated = True\<rparr> (PyStr (str_lit ''images/a.jpg'')) () (0::nat)
     = (Inl (Raised ''boom''), 0)"
proof -
  let ?P = "\<lparr>restricted_prefixes = [PyStr (str_lit ''images/'')],
             access_check = (\<lambda>(r::request) (p::pyval) (n::nat). (Inl (Raised ''boom'') :: exn + pyval, n))\<rparr>"
  let ?R = "\<lparr>policies = [?P], default_allow = PyBool False\<rparr>"
  let ?D = "\<lparr>policies = [], default_allow = PyBool True\<rparr> :: (request, nat) MediaAccessPolicyRegistry"
  let ?op = "\<lambda>(r::request) (p::pyval) (a::unit) n. (Inr (HttpResponse ''OK'') :: exn + response, Suc n)"
  let ?p = "PyStr (str_lit ''images/a.jpg'')"
  let ?ctx = "\<lparr>user_is_authenticated = True\<rparr>"
  have found: "get_policy_for_path ?R ?p = Inr (Some ?P)"
    by (simp add: get_policy_for_path_def matches_def str_lit_def)
  have raises: "access_check ?P ?ctx ?p 0 = (Inl (Raised ''boom''), 0)"
    by simp
  have eff: "effective_registry (Some ?R) ?D = ?R"
    by (simp add: effective_registry_def)
  from predicate_failure_propagates [where R = "?R" and p = "?p" and P = "?P" and ctx = "?ctx"
      and s = 0 and s' = 0 and e = "Raised ''boom''" and policy_registry = "Some ?R"
      and default_registry = "?D" and op = "?op" and args = "()"] found raises eff
  have "secure_media_path ?op (Some ?R) ?D ?ctx ?p () 0 = (Inl (Raised ''boom''), 0)"
    by blast
  with found show ?thesis
    by simp
qed

section \<open>The free function register\<close>

text \<open>
  An argument \<^verbatim>\<open>policy_registry\<close> that is false (\<^verbatim>\<open>None\<close>, but also \<^verbatim>\<open>0\<close> or
  \<^verbatim>\<open>""\<close>) makes the default registry the target.
\<close>

lemma register_false_argument:
  "\<not> obj_truthy policy_registry \<Longrightarrow>
     register (ObjPolicy P) policy_registry (ObjRegistry d) h =
       (Inr (), h(d := registry_register (h d) P))"
  by (simp add: register_def py_or_def)

text \<open>
  C5. The target registry of \<open>register\<close> is \<^verbatim>\<open>policy_registry or default_registry\<close>.
  Whenever the supplied policy is no \<^verbatim>\<open>MediaAccessPolicy\<close> or the target registry is no
  \<^verbatim>\<open>MediaAccessPolicyRegistry\<close>, the call raises \<^verbatim>\<open>ValueError\<close> and every registry is
  as it was. When the policy is a policy and a registry is given, the policy is appended
  to that registry; when no registry is given (\<^verbatim>\<open>None\<close>), it is appended to the
  process-wide default registry; no other registry changes.
\<close>

theorem register_validates:
  "(\<not> is_policy media_policy \<or> \<not> is_registry (py_or policy_registry default_registry)
      \<longrightarrow> (\<exists>msg. register media_policy policy_registry default_registry h
                   = (Inl (ValueError msg), h))) \<and>
   register (ObjPolicy P) (ObjRegistry r) default_registry h
     = (Inr (), h(r := registry_register (h r) P)) \<and>
   register (ObjPolicy P) (ObjPlain PyNone) (ObjRegistry d) h
     = (Inr (), h(d := registry_register (h d) P)) \<and>
   policies ((h(r := registry_register (h r) P)) r) = policies (h r) @ [P]"
proof -
  have bad: "\<exists>msg. register media_policy policy_registry default_registry h
      = (Inl (ValueError msg), h)"
    if "\<not> is_policy media_policy \<or> \<not> is_registry (py_or policy_registry default_registry)"
  proof (cases "py_or policy_registry default_registry")
    case (ObjRegistry r')
    with that have "\<not> is_policy media_policy"
      by simp
    with ObjRegistry show ?thesis
      by (cases media_policy) (simp_all add: register_def)
  next
    case (ObjPolicy q)
    then show ?thesis
      by (simp add: register_def)
  next
    case (ObjPlain v)
    then show ?thesis
      by (simp add: register_def)
  qed
  have given: "register (ObjPolicy P) (ObjRegistry r) default_registry h
      = (Inr (), h(r := registry_register (h r) P))"
    by (simp add: register_def py_or_def)
  have dflt: "register (ObjPolicy P) (ObjPlain PyNone) (ObjRegistry d) h
      = (Inr (), h(d := registry_register (h d) P))"
    by (simp add: register_def py_or_def)
  have appended: "policies ((h(r := registry_register (h r) P)) r) = policies (h r) @ [P]"
    by (simp add: registry_register_def)
  from bad given dflt appended show ?thesis
    by blast
qed

text \<open>
  Registering a string instead of a policy, and registering \<open>auth_policy\<close> with a policy
  in the place of the registry: both calls raise \<^verbatim>\<open>ValueError\<close> and leave the heap,
  where every reference holds the registry of the test, as it was.
\<close>

theorem register_validates_witness:
  "\<not> is_policy (ObjPlain (PyStr (str_lit ''images/'')) :: (request, unit) pyobj) \<and>
   register (ObjPlain (PyStr (str_lit ''images/''))) (ObjPlain PyNone) (ObjRegistry 0)
     (\<lambda>r. (test_registry :: (request, unit) MediaAccessPolicyRegistry))
     = (Inl (ValueError ''Wrapped class must subclass MediaAccessPolicy.''), \<lambda>r. test_registry) \<and>
   \<not> is_registry (py_or (ObjPolicy test_policy) (ObjRegistry 0) :: (request, unit) pyobj) \<and>
   register (ObjPolicy auth_policy) (ObjPolicy test_policy) (ObjRegistry 0)
     (\<lambda>r. (test_registry :: (request, unit) MediaAccessPolicyRegistry))
     = (Inl (ValueError ''registry must subclass MediaAccessPolicyRegistry''), \<lambda>r. test_registry)"
proof -
  let ?h = "\<lambda>r::nat. (test_registry :: (request, unit) MediaAccessPolicyRegistry)"
  let ?text = "ObjPlain (PyStr (str_lit ''images/'')) :: (request, unit) pyobj"
  have no_policy: "\<not> is_policy ?text"
    by simp
  have no_registry:
    "\<not> is_registry (py_or (ObjPolicy test_policy) (ObjRegistry 0) :: (request, unit) pyobj)"
    by (simp add: py_or_def)
  from register_validates [where media_policy = "?text" and policy_registry = "ObjPlain PyNone"
      and default_registry = "ObjRegistry 0" and h = "?h"] no_policy
  obtain msg1 where "register ?text (ObjPlain PyNone) (ObjRegistry 0) ?h
      = (Inl (ValueError msg1), ?h)"
    by blast
  then have r1: "register ?text (ObjPlain PyNone) (ObjRegistry 0) ?h
      = (Inl (ValueError ''Wrapped class must subclass MediaAccessPolicy.''), ?h)"
    by (simp add: register_def py_or_def)
  from register_validates [where media_policy = "ObjPolicy auth_policy"
      and policy_registry = "ObjPolicy test_policy" and default_registry = "ObjRegistry 0"
      and h = "?h"] no_registry
  obtain msg2 where "register (ObjPolicy auth_policy) (ObjPolicy test_policy) (ObjRegistry 0) ?h
      = (Inl (ValueError msg2), ?h)"
    by blast
  then have r2: "register (ObjPolicy auth_policy) (ObjPolicy test_policy) (ObjRegistry 0) ?h
      = (Inl (ValueError ''registry must subclass MediaAccessPolicyRegistry''), ?h)"
    by (simp add: register_def py_or_def)
  from no_policy r1 no_registry r2 show ?thesis
    by simp
qed

end
